theory Spec2Isabelle
  imports Complex_Main "HOL-Library.Sublist" "HOL-Library.Log_Nat"
begin

section \<open>The JavaScript host\<close>

text \<open>
  \<^verbatim>\<open>server.js\<close> is a set of Express route handlers over one Mongoose model. The
  handlers are short, and what they compute is decided by the built-ins they call:
  \<^verbatim>\<open>parseFloat\<close>, \<^verbatim>\<open>new RegExp\<close>, \<^verbatim>\<open>new Date\<close>, \<^verbatim>\<open>getMonth\<close>/\<^verbatim>\<open>setMonth\<close> and the
  Mongoose queries. This section models the built-ins, following ECMA-262; the next one
  the store; the handlers come after, line by line.

  Conventions of the model.
  \<^item> A JavaScript string is a \<^typ>\<open>string\<close>; characters are taken as ASCII.
  \<^item> A JavaScript Number is a value of \<open>Number\<close>: \<open>NaN\<close>, the two infinities, or a
    finite binary64 value, held as the rational it is (both zeros are \<open>Num 0\<close>). Where
    the program's arithmetic rounds, the model rounds: \<^verbatim>\<open>parseFloat\<close> returns the
    binary64 nearest to the decimal it reads, and the sum of prices is the server's.
  \<^item> What lies outside the source and is left open by its specification, or is too
    large to model, is a field of the record \<open>host\<close>, which every handler receives:
    the local time zone, the date formats accepted beyond the ISO one, regular
    expressions with syntax characters, and the server's accumulator for \<^verbatim>\<open>$sum\<close>.
    The theorems hold for every host.
\<close>

datatype Number = NaN | Infinity | NegInfinity | Num rat

text \<open>
  A Date object holds a time value: milliseconds since 1970-01-01T00:00:00Z, or NaN
  (\<^verbatim>\<open>Invalid Date\<close>).
\<close>

datatype Date = InvalidDate | TimeValue int

text \<open>
  The server computes \<^verbatim>\<open>$sum\<close> with an accumulator: a state that starts at
  \<open>sum_init\<close>, takes in the values of the group one at a time in the order the
  documents are processed (\<open>sum_add\<close>), and is read at the end (\<open>sum_value\<close>). Its
  binary64 arithmetic, with its rounding, is the server's own; \<open>'acc\<close> is the type of
  its state.
\<close>

record 'acc host =
  LocalTZA :: int
    \<comment> \<open>offset of local time from UTC in milliseconds (taken constant: no daylight saving)\<close>
  date_fallback :: "string \<Rightarrow> Date"
    \<comment> \<open>\<^verbatim>\<open>Date.parse\<close> on a string that is not in the ISO date format\<close>
  regexp_fallback :: "string \<Rightarrow> (string \<Rightarrow> bool) option"
    \<comment> \<open>\<^verbatim>\<open>new RegExp(p, 'i')\<close> for a pattern with syntax characters that does not start
        with a quantifier: \<open>None\<close> when the constructor throws SyntaxError, else the test
        the pattern stands for\<close>
  sum_init :: 'acc
  sum_add :: "'acc \<Rightarrow> rat \<Rightarrow> 'acc"
  sum_value :: "'acc \<Rightarrow> Number"

subsection \<open>Characters\<close>

definition isDigit :: "char \<Rightarrow> bool" where
  "isDigit c = (48 \<le> (of_char c :: nat) \<and> (of_char c :: nat) \<le> 57)"

definition digitVal :: "char \<Rightarrow> int" where
  "digitVal c = int (of_char c) - 48"

text \<open>The ASCII members of StrWhiteSpaceChar: TAB, LF, VT, FF, CR, SP.\<close>

definition isWhiteSpace :: "char \<Rightarrow> bool" where
  "isWhiteSpace c = ((of_char c :: nat) \<in> {9, 10, 11, 12, 13, 32})"

text \<open>Value of a run of decimal digits, most significant first (0 for the empty run).\<close>

definition digitsVal :: "string \<Rightarrow> int" where
  "digitsVal ds = foldl (\<lambda>acc c. 10 * acc + digitVal c) 0 ds"

definition toLowerCase :: "char \<Rightarrow> char" where
  "toLowerCase c =
     (if 65 \<le> (of_char c :: nat) \<and> (of_char c :: nat) \<le> 90
      then char_of ((of_char c :: nat) + 32) else c)"

subsection \<open>Rounding to binary64\<close>

text \<open>
  The binary64 value nearest to a rational, ties to the even significand (IEEE 754
  roundTiesToEven): the significand has 53 bits, the least exponent of a unit in the
  last place is -1074 (subnormal values), and a result of \<open>2 ^ 1024\<close> or more is an
  infinity. \<open>floorLog2 x\<close> is the integer \<open>e\<close> with \<open>2 ^ e \<le> x < 2 ^ (e + 1)\<close>, for
  positive \<open>x\<close>.
\<close>

definition pow2 :: "int \<Rightarrow> rat" where
  "pow2 e = (if 0 \<le> e then 2 ^ nat e else 1 / 2 ^ nat (- e))"

definition floorLog2 :: "rat \<Rightarrow> int" where
  "floorLog2 x =
     (let (a, b) = quotient_of x; k = bitlen a - bitlen b
      in if pow2 k \<le> x then k else k - 1)"

definition roundTiesToEven :: "rat \<Rightarrow> int" where
  "roundTiesToEven x =
     (let f = \<lfloor>x\<rfloor>; d = x - of_int f
      in if d < 1 / 2 then f else if 1 / 2 < d then f + 1 else if even f then f else f + 1)"

definition roundToBinary64 :: "rat \<Rightarrow> Number" where
  "roundToBinary64 x =
     (if x = 0 then Num 0
      else
        let q = max (floorLog2 \<bar>x\<bar>) (- 1022) - 52;
            n = roundTiesToEven (\<bar>x\<bar> / pow2 q)
        in if 971 < q \<or> (q = 971 \<and> n = 9007199254740992)
           then (if 0 < x then Infinity else NegInfinity)
           else Num (if 0 < x then of_int n * pow2 q else - (of_int n * pow2 q)))"

subsection \<open>parseFloat\<close>

text \<open>
  ECMA-262 \<^verbatim>\<open>parseFloat(string)\<close>: strip leading white space, take the longest prefix
  that is a StrDecimalLiteral (an optional sign, then \<^verbatim>\<open>Infinity\<close> or digits with an
  optional fraction and an optional exponent), and return the Number value for its
  mathematical value, that is the value rounded to binary64; NaN when there is no such
  prefix.
\<close>

definition pow10 :: "int \<Rightarrow> rat" where
  "pow10 e = (if 0 \<le> e then 10 ^ nat e else 1 / 10 ^ nat (- e))"

text \<open>The ExponentPart at the head of a string, 0 when there is none.\<close>

definition exponentPart :: "string \<Rightarrow> int" where
  "exponentPart s =
     (case s of
        [] \<Rightarrow> 0
      | c # r \<Rightarrow>
          if c = CHR ''e'' \<or> c = CHR ''E'' then
            (case r of
               [] \<Rightarrow> 0
             | d # r' \<Rightarrow>
                 if d = CHR ''+'' then
                   (if takeWhile isDigit r' = [] then 0 else digitsVal (takeWhile isDigit r'))
                 else if d = CHR ''-'' then
                   (if takeWhile isDigit r' = [] then 0 else - digitsVal (takeWhile isDigit r'))
                 else digitsVal (takeWhile isDigit r))
          else 0)"

definition unsignedDecimal :: "string \<Rightarrow> Number" where
  "unsignedDecimal u =
     (if prefix ''Infinity'' u then Infinity
      else
        let ip = takeWhile isDigit u;
            r1 = dropWhile isDigit u;
            fp = (case r1 of [] \<Rightarrow> [] | c # r \<Rightarrow> if c = CHR ''.'' then takeWhile isDigit r else []);
            r2 = (case r1 of [] \<Rightarrow> [] | c # r \<Rightarrow> if c = CHR ''.'' then dropWhile isDigit r else r1)
        in if ip = [] \<and> fp = [] then NaN
           else roundToBinary64
                  ((of_int (digitsVal ip) + of_int (digitsVal fp) / 10 ^ length fp)
                   * pow10 (exponentPart r2)))"

definition negate :: "Number \<Rightarrow> Number" where
  "negate n = (case n of NaN \<Rightarrow> NaN | Infinity \<Rightarrow> NegInfinity | NegInfinity \<Rightarrow> Infinity
               | Num x \<Rightarrow> Num (- x))"

definition parseFloat :: "string \<Rightarrow> Number" where
  "parseFloat s =
     (case dropWhile isWhiteSpace s of
        [] \<Rightarrow> NaN
      | c # r \<Rightarrow>
          if c = CHR ''-'' then negate (unsignedDecimal r)
          else if c = CHR ''+'' then unsignedDecimal r
          else unsignedDecimal (c # r))"

text \<open>
  \<^verbatim>\<open>x || d\<close> on Numbers: \<open>d\<close> when \<open>x\<close> is falsy. The falsy Numbers are NaN, +0 and -0
  (both zeros are \<open>Num 0\<close> here).
\<close>

definition falsy :: "Number \<Rightarrow> bool" where
  "falsy n = (n = NaN \<or> n = Num 0)"

definition or_else :: "Number \<Rightarrow> Number \<Rightarrow> Number" where
  "or_else x d = (if falsy x then d else x)"

subsection \<open>Regular expressions\<close>

text \<open>
  \<^verbatim>\<open>new RegExp(search, 'i')\<close>. A pattern without syntax characters is a literal: the
  constructor accepts it, and it matches a string exactly when the string contains it,
  letter case ignored. A pattern that starts with a quantifier (\<^verbatim>\<open>*\<close>, \<^verbatim>\<open>+\<close> or \<^verbatim>\<open>?\<close>)
  has nothing to repeat: the constructor throws SyntaxError. Every other pattern is the
  host's.
\<close>

definition syntaxCharacter :: "char \<Rightarrow> bool" where
  \<comment> \<open>the characters \<^verbatim>\<open>$ ( ) * + . / ? [ \ ] ^ { | }\<close>, by code\<close>
  "syntaxCharacter c =
     ((of_char c :: nat) \<in> {36, 40, 41, 42, 43, 46, 47, 63, 91, 92, 93, 94, 123, 124, 125})"

definition literalPattern :: "string \<Rightarrow> bool" where
  "literalPattern p = list_all (\<lambda>c. (of_char c :: nat) < 128 \<and> \<not> syntaxCharacter c) p"

fun includes_ci :: "string \<Rightarrow> string \<Rightarrow> bool" where
  "includes_ci p [] = (p = [])"
| "includes_ci p (c # cs) =
     (prefix (map toLowerCase p) (map toLowerCase (c # cs)) \<or> includes_ci p cs)"

definition nothingToRepeat :: "string \<Rightarrow> bool" where
  "nothingToRepeat p =
     (case p of [] \<Rightarrow> False | c # _ \<Rightarrow> c = CHR ''*'' \<or> c = CHR ''+'' \<or> c = CHR ''?'')"

definition RegExp_i :: "'acc host \<Rightarrow> string \<Rightarrow> (string \<Rightarrow> bool) option" where
  "RegExp_i h p =
     (if literalPattern p then Some (includes_ci p)
      else if nothingToRepeat p then None
      else regexp_fallback h p)"

subsection \<open>Dates\<close>

text \<open>
  The day and year arithmetic of ECMA-262 (Time Values and Time Range; Day Number and
  Time within Day; Year Number; Month Number; Date Number). \<open>YearFromTime\<close> is
  specified as the largest \<open>y\<close> with \<open>TimeFromYear y \<le> t\<close>; here it is computed from the
  mean year length of 146097/400 days, which is off by at most one year.
\<close>

definition msPerDay :: int where
  "msPerDay = 86400000"

definition Day :: "int \<Rightarrow> int" where
  "Day t = t div msPerDay"

definition TimeWithinDay :: "int \<Rightarrow> int" where
  "TimeWithinDay t = t mod msPerDay"

definition DaysInYear :: "int \<Rightarrow> int" where
  "DaysInYear y =
     (if y mod 4 \<noteq> 0 then 365 else if y mod 100 \<noteq> 0 then 366
      else if y mod 400 \<noteq> 0 then 365 else 366)"

definition DayFromYear :: "int \<Rightarrow> int" where
  "DayFromYear y =
     365 * (y - 1970) + (y - 1969) div 4 - (y - 1901) div 100 + (y - 1601) div 400"

definition YearFromTime :: "int \<Rightarrow> int" where
  "YearFromTime t =
     (let d = Day t; y = 1970 + (400 * d) div 146097
      in if DayFromYear (y + 1) \<le> d then y + 1
         else if DayFromYear y \<le> d then y else y - 1)"

definition InLeapYear :: "int \<Rightarrow> int" where
  "InLeapYear t = (if DaysInYear (YearFromTime t) = 366 then 1 else 0)"

definition DayWithinYear :: "int \<Rightarrow> int" where
  "DayWithinYear t = Day t - DayFromYear (YearFromTime t)"

definition MonthFromTime :: "int \<Rightarrow> int" where
  "MonthFromTime t =
     (let d = DayWithinYear t; l = InLeapYear t
      in if d < 31 then 0
         else if d < 59 + l then 1
         else if d < 90 + l then 2
         else if d < 120 + l then 3
         else if d < 151 + l then 4
         else if d < 181 + l then 5
         else if d < 212 + l then 6
         else if d < 243 + l then 7
         else if d < 273 + l then 8
         else if d < 304 + l then 9
         else if d < 334 + l then 10
         else 11)"

definition DateFromTime :: "int \<Rightarrow> int" where
  "DateFromTime t =
     (let d = DayWithinYear t; l = InLeapYear t; m = MonthFromTime t
      in if m = 0 then d + 1
         else if m = 1 then d - 30
         else if m = 2 then d - 58 - l
         else if m = 3 then d - 89 - l
         else if m = 4 then d - 119 - l
         else if m = 5 then d - 150 - l
         else if m = 6 then d - 180 - l
         else if m = 7 then d - 211 - l
         else if m = 8 then d - 242 - l
         else if m = 9 then d - 272 - l
         else if m = 10 then d - 303 - l
         else d - 333 - l)"

text \<open>Day within the year on which month \<open>mn\<close> (0 to 11) starts; \<open>l\<close> is 1 in a leap year.\<close>

definition monthStart :: "int \<Rightarrow> int \<Rightarrow> int" where
  "monthStart l mn =
     (if mn = 0 then 0
      else if mn = 1 then 31
      else if mn = 2 then 59 + l
      else if mn = 3 then 90 + l
      else if mn = 4 then 120 + l
      else if mn = 5 then 151 + l
      else if mn = 6 then 181 + l
      else if mn = 7 then 212 + l
      else if mn = 8 then 243 + l
      else if mn = 9 then 273 + l
      else if mn = 10 then 304 + l
      else 334 + l)"

text \<open>
  \<open>MakeDay\<close>: the month may lie outside 0 to 11 and carries into the year
  (\<open>ym = year + floor (month / 12)\<close>, \<open>mn = month modulo 12\<close>); the date may exceed
  the month's length and runs on into the next month.
\<close>

definition MakeDay :: "int \<Rightarrow> int \<Rightarrow> int \<Rightarrow> int" where
  "MakeDay year month date =
     (let ym = year + month div 12; mn = month mod 12;
          l = (if DaysInYear ym = 366 then 1 else 0)
      in DayFromYear ym + monthStart l mn + date - 1)"

definition MakeDate :: "int \<Rightarrow> int \<Rightarrow> int" where
  "MakeDate day time = day * msPerDay + time"

definition TimeClip :: "int \<Rightarrow> Date" where
  "TimeClip t = (if \<bar>t\<bar> > 8640000000000000 then InvalidDate else TimeValue t)"

definition LocalTime :: "'acc host \<Rightarrow> int \<Rightarrow> int" where
  "LocalTime h t = t + LocalTZA h"

definition UTC :: "'acc host \<Rightarrow> int \<Rightarrow> int" where
  "UTC h t = t - LocalTZA h"

text \<open>
  \<^verbatim>\<open>new Date(string)\<close>, that is \<^verbatim>\<open>Date.parse\<close>. A string of the form \<^verbatim>\<open>YYYY-MM-DD\<close> is
  the date-only form of the ISO format and denotes midnight UTC of that day; with a
  month outside 01 to 12 or a day outside 01 to 31 it is NaN. Every other string is
  parsed by the host's own formats.
\<close>

definition isoDateOnly :: "string \<Rightarrow> (int \<times> int \<times> int) option" where
  "isoDateOnly s =
     (case s of
        [y1, y2, y3, y4, a, m1, m2, b, d1, d2] \<Rightarrow>
          if list_all isDigit [y1, y2, y3, y4, m1, m2, d1, d2] \<and> a = CHR ''-'' \<and> b = CHR ''-''
          then Some (digitsVal [y1, y2, y3, y4], digitsVal [m1, m2], digitsVal [d1, d2])
          else None
      | _ \<Rightarrow> None)"

definition DaysInMonth :: "int \<Rightarrow> int \<Rightarrow> int" where
  "DaysInMonth y m =
     (if m = 2 then (if DaysInYear y = 366 then 29 else 28)
      else if m \<in> {4, 6, 9, 11} then 30 else 31)"

definition Date_parse :: "'acc host \<Rightarrow> string \<Rightarrow> Date" where
  "Date_parse h s =
     (case isoDateOnly s of
        None \<Rightarrow> date_fallback h s
      | Some (y, m, d) \<Rightarrow>
          if m < 1 \<or> 12 < m \<or> d < 1 \<or> 31 < d then InvalidDate
          else if d \<le> DaysInMonth y m then TimeClip (MakeDate (MakeDay y (m - 1) d) 0)
          else date_fallback h s)"

text \<open>
  \<^verbatim>\<open>getMonth\<close> and \<^verbatim>\<open>setMonth\<close> work in local time. \<^verbatim>\<open>getMonth\<close> of an invalid date is
  NaN, here \<open>None\<close>; \<^verbatim>\<open>setMonth\<close> leaves an invalid date invalid.
\<close>

definition getMonth :: "'acc host \<Rightarrow> Date \<Rightarrow> int option" where
  "getMonth h d =
     (case d of InvalidDate \<Rightarrow> None | TimeValue t \<Rightarrow> Some (MonthFromTime (LocalTime h t)))"

definition setMonth :: "'acc host \<Rightarrow> Date \<Rightarrow> int option \<Rightarrow> Date" where
  "setMonth h d month =
     (case d of
        InvalidDate \<Rightarrow> InvalidDate
      | TimeValue t \<Rightarrow>
          (case month of
             None \<Rightarrow> InvalidDate
           | Some m \<Rightarrow>
               let lt = LocalTime h t
               in TimeClip (UTC h (MakeDate (MakeDay (YearFromTime lt) m (DateFromTime lt))
                                            (TimeWithinDay lt)))))"

section \<open>The store\<close>

text \<open>
  \<^verbatim>\<open>productTransactionSchema\<close>: a document of the collection. Every document carries
  the seven fields of the schema with a value of the field's type, as the documents of
  the seed data do. \<open>price\<close> is the value of the stored binary64 and \<open>dateOfSale\<close>
  the time value of the stored date; the field \<^verbatim>\<open>id\<close> is \<open>idNo\<close> here. The collection is the list of its documents in natural order, the
  order in which an unsorted \<^verbatim>\<open>find\<close> returns them; the handlers only read it.
\<close>

record ProductTransaction =
  idNo :: int
  title :: string
  description :: string
  price :: rat
  dateOfSale :: int
  category :: string
  sold :: bool

datatype error = CastError | MongoServerError | SyntaxError

text \<open>
  Mongoose casts the values of a filter given to \<^verbatim>\<open>find\<close> or \<^verbatim>\<open>countDocuments\<close> to the
  schema's types, and the query is rejected with a CastError when a value for a Date path
  is an invalid date. The filter \<^verbatim>\<open>{ $gte: startDate, $lt: endDate }\<close> on \<open>dateOfSale\<close>:
\<close>

definition castDate :: "Date \<Rightarrow> error + int" where
  "castDate d = (case d of InvalidDate \<Rightarrow> Inl CastError | TimeValue t \<Rightarrow> Inr t)"

definition dateOfSale_range :: "Date \<Rightarrow> Date \<Rightarrow> error + (ProductTransaction \<Rightarrow> bool)" where
  "dateOfSale_range startDate endDate =
     (case castDate startDate of
        Inl e \<Rightarrow> Inl e
      | Inr s \<Rightarrow>
          (case castDate endDate of
             Inl e \<Rightarrow> Inl e
           | Inr e \<Rightarrow> Inr (\<lambda>t. s \<le> dateOfSale t \<and> dateOfSale t < e)))"

text \<open>
  An aggregation pipeline is not cast: the dates of its \<^verbatim>\<open>$match\<close> stage go to the
  driver as they are, and BSON writes the time value of an invalid date as 0.
\<close>

definition bsonDate :: "Date \<Rightarrow> int" where
  "bsonDate d = (case d of InvalidDate \<Rightarrow> 0 | TimeValue t \<Rightarrow> t)"

definition match_dateOfSale :: "Date \<Rightarrow> Date \<Rightarrow> ProductTransaction \<Rightarrow> bool" where
  "match_dateOfSale startDate endDate t =
     (bsonDate startDate \<le> dateOfSale t \<and> dateOfSale t < bsonDate endDate)"

text \<open>
  \<^verbatim>\<open>find(filter).skip(n).limit(m)\<close>: the server rejects a negative skip; a limit of 0 is
  no limit, and a negative limit is taken by its absolute value.
\<close>

definition limit_docs :: "int \<Rightarrow> 'a list \<Rightarrow> 'a list" where
  "limit_docs m xs = (if m = 0 then xs else take (nat \<bar>m\<bar>) xs)"

definition find_skip_limit ::
  "(error + (ProductTransaction \<Rightarrow> bool)) \<Rightarrow> int \<Rightarrow> int \<Rightarrow> ProductTransaction list
     \<Rightarrow> error + ProductTransaction list" where
  "find_skip_limit flt n m docs =
     (case flt of
        Inl e \<Rightarrow> Inl e
      | Inr P \<Rightarrow>
          if n < 0 then Inl MongoServerError
          else Inr (limit_docs m (drop (nat n) (filter P docs))))"

definition countDocuments ::
  "(error + (ProductTransaction \<Rightarrow> bool)) \<Rightarrow> ProductTransaction list \<Rightarrow> error + nat" where
  "countDocuments flt docs =
     (case flt of Inl e \<Rightarrow> Inl e | Inr P \<Rightarrow> Inr (length (filter P docs)))"

text \<open>
  \<^verbatim>\<open>{ $group: { _id: null, total: { $sum: "$price" } } }\<close>: no group for no document, else
  the one group, whose total is what the server's accumulator holds after it has taken
  in the prices of the documents, in their order.
\<close>

definition server_sum :: "'acc host \<Rightarrow> rat list \<Rightarrow> Number" where
  "server_sum h xs = sum_value h (foldl (sum_add h) (sum_init h) xs)"

definition group_sum_price :: "'acc host \<Rightarrow> ProductTransaction list \<Rightarrow> Number list" where
  "group_sum_price h docs = (if docs = [] then [] else [server_sum h (map price docs)])"

text \<open>
  \<^verbatim>\<open>{ $group: { _id: "$category", count: { $sum: 1 } } }\<close> followed by the \<^verbatim>\<open>$project\<close>
  stage: one \<open>(category, count)\<close> per category. The server fixes no order of the groups;
  the model lists them by last occurrence.
\<close>

definition group_count_category :: "ProductTransaction list \<Rightarrow> (string \<times> nat) list" where
  "group_count_category docs =
     map (\<lambda>c. (c, length (filter (\<lambda>t. category t = c) docs))) (remdups (map category docs))"

section \<open>The route handlers\<close>

text \<open>
  What a handler does with a request: it answers with status 200 and a body, or with
  status 500 and a message, or it sends nothing: an exception thrown outside the
  handler's \<^verbatim>\<open>try\<close> block rejects the handler's promise, which nothing handles, and the
  request stays unanswered.
\<close>

datatype 'a response =
    is_Status200: Status200 'a
  | is_Status500: Status500 string
  | is_Unanswered: Unanswered error

text \<open>
  \<^verbatim>\<open>req.query\<close>: a parameter is absent (\<^verbatim>\<open>undefined\<close>) or given. \<open>page\<close> and \<open>perPage\<close>
  are given as decimal numerals and appear here as the integers they denote, on which
  \<^verbatim>\<open>page - 1\<close>, \<^verbatim>\<open>* perPage\<close> and \<^verbatim>\<open>parseInt(perPage)\<close> act as on integers. A local
  variable of a handler that bears the name of a key is primed.
\<close>

record query =
  month :: "string option"
  search :: "string option"
  page :: "int option"
  perPage :: "int option"

text \<open>
  The three lines every handler starts with:
  \<^verbatim>\<open>const startDate = new Date(`${month}-01`);\<close>
  \<^verbatim>\<open>const endDate = new Date(startDate);\<close>
  \<^verbatim>\<open>endDate.setMonth(endDate.getMonth() + 1);\<close>
\<close>

definition template :: "string option \<Rightarrow> string" where
  "template m = (case m of None \<Rightarrow> ''undefined'' | Some s \<Rightarrow> s)"

definition startDate :: "'acc host \<Rightarrow> string option \<Rightarrow> Date" where
  "startDate h m = Date_parse h (template m @ ''-01'')"

definition endDate :: "'acc host \<Rightarrow> string option \<Rightarrow> Date" where
  "endDate h m =
     (let endDate = startDate h m
      in setMonth h endDate (map_option (\<lambda>k. k + 1) (getMonth h endDate)))"

subsection \<open>\<^verbatim>\<open>/api/transactions\<close>\<close>

record transactions_body =
  transactions :: "ProductTransaction list"
  total :: nat

text \<open>
  The filter given to both \<^verbatim>\<open>find\<close> and \<^verbatim>\<open>countDocuments\<close>: the date range and the
  \<^verbatim>\<open>$or\<close> of the three search conditions.
\<close>

definition search_or :: "(string \<Rightarrow> bool) \<Rightarrow> string \<Rightarrow> ProductTransaction \<Rightarrow> bool" where
  "search_or regex search' t =
     (regex (title t) \<or> regex (description t)
      \<or> Num (price t) = or_else (parseFloat search') (Num (- 1)))"

definition transactions_filter ::
  "'acc host \<Rightarrow> string option \<Rightarrow> (string \<Rightarrow> bool) \<Rightarrow> string
     \<Rightarrow> error + (ProductTransaction \<Rightarrow> bool)" where
  "transactions_filter h m regex search' =
     (case dateOfSale_range (startDate h m) (endDate h m) of
        Inl e \<Rightarrow> Inl e
      | Inr W \<Rightarrow> Inr (\<lambda>t. W t \<and> search_or regex search' t))"

definition api_transactions ::
  "'acc host \<Rightarrow> ProductTransaction list \<Rightarrow> query \<Rightarrow> transactions_body response" where
  "api_transactions h docs q =
     (let search' = (case search q of None \<Rightarrow> [] | Some s \<Rightarrow> s);
          page' = (case page q of None \<Rightarrow> 1 | Some p \<Rightarrow> p);
          perPage' = (case perPage q of None \<Rightarrow> 10 | Some p \<Rightarrow> p)
      in case RegExp_i h search' of
           None \<Rightarrow> Unanswered SyntaxError
         | Some regex \<Rightarrow>
             (case find_skip_limit (transactions_filter h (month q) regex search')
                     ((page' - 1) * perPage') perPage' docs of
                Inl e \<Rightarrow> Status500 ''Error fetching transactions''
              | Inr transactions' \<Rightarrow>
                  (case countDocuments (transactions_filter h (month q) regex search') docs of
                     Inl e \<Rightarrow> Status500 ''Error fetching transactions''
                   | Inr total' \<Rightarrow>
                       Status200 \<lparr>transactions = transactions', total = total'\<rparr>)))"

subsection \<open>\<^verbatim>\<open>/api/statistics\<close>\<close>

record statistics_body =
  totalSaleAmount :: Number
  totalSoldItems :: nat
  totalNotSoldItems :: nat

definition api_statistics ::
  "'acc host \<Rightarrow> ProductTransaction list \<Rightarrow> string option \<Rightarrow> statistics_body response" where
  "api_statistics h docs m =
     (let totalSaleAmount' =
            group_sum_price h
              (filter (\<lambda>t. match_dateOfSale (startDate h m) (endDate h m) t \<and> sold t = True) docs);
          between = dateOfSale_range (startDate h m) (endDate h m)
      in case countDocuments (map_sum id (\<lambda>W t. W t \<and> sold t = True) between) docs of
           Inl e \<Rightarrow> Status500 ''Error fetching statistics''
         | Inr totalSoldItems' \<Rightarrow>
             (case countDocuments (map_sum id (\<lambda>W t. W t \<and> sold t = False) between) docs of
                Inl e \<Rightarrow> Status500 ''Error fetching statistics''
              | Inr totalNotSoldItems' \<Rightarrow>
                  Status200
                    \<lparr>totalSaleAmount =
                       (case totalSaleAmount' of [] \<Rightarrow> Num 0
                        | total' # _ \<Rightarrow> or_else total' (Num 0)),
                     totalSoldItems = totalSoldItems',
                     totalNotSoldItems = totalNotSoldItems'\<rparr>))"

subsection \<open>\<^verbatim>\<open>/api/bar-chart\<close>\<close>

text \<open>
  An entry of \<^verbatim>\<open>priceRanges\<close>; its keys \<^verbatim>\<open>range\<close>, \<^verbatim>\<open>min\<close> and \<^verbatim>\<open>max\<close> carry the
  suffix \<open>_of\<close> here.
\<close>

record priceRange =
  range_of :: string
  min_of :: Number
  max_of :: Number

definition priceRanges :: "priceRange list" where
  "priceRanges =
     [\<lparr>range_of = ''0-100'', min_of = Num 0, max_of = Num 100\<rparr>,
      \<lparr>range_of = ''101-200'', min_of = Num 101, max_of = Num 200\<rparr>,
      \<lparr>range_of = ''201-300'', min_of = Num 201, max_of = Num 300\<rparr>,
      \<lparr>range_of = ''301-400'', min_of = Num 301, max_of = Num 400\<rparr>,
      \<lparr>range_of = ''401-500'', min_of = Num 401, max_of = Num 500\<rparr>,
      \<lparr>range_of = ''501-600'', min_of = Num 501, max_of = Num 600\<rparr>,
      \<lparr>range_of = ''601-700'', min_of = Num 601, max_of = Num 700\<rparr>,
      \<lparr>range_of = ''701-800'', min_of = Num 701, max_of = Num 800\<rparr>,
      \<lparr>range_of = ''801-900'', min_of = Num 801, max_of = Num 900\<rparr>,
      \<lparr>range_of = ''901-above'', min_of = Num 901, max_of = Infinity\<rparr>]"

text \<open>\<^verbatim>\<open>{ $gte: b }\<close> and \<^verbatim>\<open>{ $lt: b }\<close> on a price, for a Number bound.\<close>

definition gte :: "rat \<Rightarrow> Number \<Rightarrow> bool" where
  "gte p b = (case b of NaN \<Rightarrow> False | Infinity \<Rightarrow> False | NegInfinity \<Rightarrow> True | Num x \<Rightarrow> x \<le> p)"

definition lt :: "rat \<Rightarrow> Number \<Rightarrow> bool" where
  "lt p b = (case b of NaN \<Rightarrow> False | Infinity \<Rightarrow> True | NegInfinity \<Rightarrow> False | Num x \<Rightarrow> p < x)"

definition in_range :: "priceRange \<Rightarrow> ProductTransaction \<Rightarrow> bool" where
  "in_range r t = (gte (price t) (min_of r) \<and> lt (price t) (max_of r))"

text \<open>
  \<^verbatim>\<open>Promise.all\<close> of the ten counts: the results in the order of \<open>priceRanges\<close>, or the
  first rejection.
\<close>

fun Promise_all :: "('e + 'a) list \<Rightarrow> 'e + 'a list" where
  "Promise_all [] = Inr []"
| "Promise_all (Inl e # ps) = Inl e"
| "Promise_all (Inr x # ps) = (case Promise_all ps of Inl e \<Rightarrow> Inl e | Inr xs \<Rightarrow> Inr (x # xs))"

definition range_count ::
  "'acc host \<Rightarrow> ProductTransaction list \<Rightarrow> string option \<Rightarrow> priceRange \<Rightarrow> error + (string \<times> nat)" where
  "range_count h docs m r =
     (case countDocuments
             (map_sum id (\<lambda>W t. W t \<and> in_range r t)
                (dateOfSale_range (startDate h m) (endDate h m))) docs of
        Inl e \<Rightarrow> Inl e
      | Inr count \<Rightarrow> Inr (range_of r, count))"

definition api_bar_chart ::
  "'acc host \<Rightarrow> ProductTransaction list \<Rightarrow> string option \<Rightarrow> (string \<times> nat) list response" where
  "api_bar_chart h docs m =
     (case Promise_all (map (range_count h docs m) priceRanges) of
        Inl e \<Rightarrow> Status500 ''Error fetching bar chart data''
      | Inr barChartData \<Rightarrow> Status200 barChartData)"

subsection \<open>\<^verbatim>\<open>/api/pie-chart\<close>\<close>

definition api_pie_chart ::
  "'acc host \<Rightarrow> ProductTransaction list \<Rightarrow> string option \<Rightarrow> (string \<times> nat) list response" where
  "api_pie_chart h docs m =
     Status200 (group_count_category (filter (match_dateOfSale (startDate h m) (endDate h m)) docs))"

subsection \<open>\<^verbatim>\<open>/api/combined-data\<close>\<close>

text \<open>
  The handler requests the four other routes of the same server in turn, passing only
  \<open>month\<close>. \<^verbatim>\<open>axios.get\<close> resolves with the data of a 200 response and rejects on a 500
  response, which takes the handler to its \<^verbatim>\<open>catch\<close>; a request that is never answered
  leaves the handler waiting. The body's key \<^verbatim>\<open>transactions\<close> is \<open>transactionsData\<close>
  here.
\<close>

record combined_body =
  transactionsData :: transactions_body
  statistics :: statistics_body
  barChart :: "(string \<times> nat) list"
  pieChart :: "(string \<times> nat) list"

definition combine ::
  "transactions_body response \<Rightarrow> statistics_body response \<Rightarrow> (string \<times> nat) list response
     \<Rightarrow> (string \<times> nat) list response \<Rightarrow> combined_body response" where
  "combine transactionsResponse statisticsResponse barChartResponse pieChartResponse =
     (case transactionsResponse of
        Unanswered e \<Rightarrow> Unanswered e
      | Status500 _ \<Rightarrow> Status500 ''Error fetching combined data''
      | Status200 tr \<Rightarrow>
     (case statisticsResponse of
        Unanswered e \<Rightarrow> Unanswered e
      | Status500 _ \<Rightarrow> Status500 ''Error fetching combined data''
      | Status200 st \<Rightarrow>
     (case barChartResponse of
        Unanswered e \<Rightarrow> Unanswered e
      | Status500 _ \<Rightarrow> Status500 ''Error fetching combined data''
      | Status200 bc \<Rightarrow>
     (case pieChartResponse of
        Unanswered e \<Rightarrow> Unanswered e
      | Status500 _ \<Rightarrow> Status500 ''Error fetching combined data''
      | Status200 pc \<Rightarrow>
          Status200 \<lparr>transactionsData = tr, statistics = st, barChart = bc, pieChart = pc\<rparr>))))"

definition api_combined_data ::
  "'acc host \<Rightarrow> ProductTransaction list \<Rightarrow> string option \<Rightarrow> combined_body response" where
  "api_combined_data h docs m =
     combine
       (api_transactions h docs \<lparr>month = m, search = None, page = None, perPage = None\<rparr>)
       (api_statistics h docs m)
       (api_bar_chart h docs m)
       (api_pie_chart h docs m)"

section \<open>Notions of the specification\<close>

text \<open>
  The specification's single linear scan for the statistics: one pass over the
  collection that updates the three aggregates together, for the documents \<open>W\<close>
  admits: the sold ones go into the accumulator of the sum and are counted, the others
  are counted. The report reads the three aggregates; as the handler does, it gives 0
  for the amount when nothing was sold (there is no group then) or when the total is
  falsy.
\<close>

record 'acc scan =
  saleAmount :: 'acc
  soldItems :: nat
  notSoldItems :: nat

fun linear_scan ::
  "'acc host \<Rightarrow> (ProductTransaction \<Rightarrow> bool) \<Rightarrow> 'acc scan \<Rightarrow> ProductTransaction list \<Rightarrow> 'acc scan" where
  "linear_scan h W acc [] = acc"
| "linear_scan h W acc (t # ts) =
     linear_scan h W
       (if \<not> W t then acc
        else if sold t
          then acc\<lparr>saleAmount := sum_add h (saleAmount acc) (price t),
                   soldItems := soldItems acc + 1\<rparr>
          else acc\<lparr>notSoldItems := notSoldItems acc + 1\<rparr>)
       ts"

definition scan_start :: "'acc host \<Rightarrow> 'acc scan" where
  "scan_start h = \<lparr>saleAmount = sum_init h, soldItems = 0, notSoldItems = 0\<rparr>"

definition scan_report :: "'acc host \<Rightarrow> 'acc scan \<Rightarrow> statistics_body" where
  "scan_report h acc =
     \<lparr>totalSaleAmount =
        (if soldItems acc = 0 then Num 0 else or_else (sum_value h (saleAmount acc)) (Num 0)),
      totalSoldItems = soldItems acc,
      totalNotSoldItems = notSoldItems acc\<rparr>"

text \<open>
  The prices no range of \<open>priceRanges\<close> admits: the negative ones, and those from a
  multiple of 100 (100 to 900) up to, but excluding, the next integer.
\<close>

definition boundary_gap :: "rat \<Rightarrow> bool" where
  "boundary_gap p =
     (p < 0 \<or> list_ex (\<lambda>b. b \<le> p \<and> p < b + 1) [100, 200, 300, 400, 500, 600, 700, 800, 900])"

text \<open>
  \<^verbatim>\<open>Number.MAX_SAFE_INTEGER\<close>, \<open>2 ^ 53 - 1\<close>: up to it the handler's binary64 arithmetic
  on \<open>page\<close> and \<open>perPage\<close> is the integer arithmetic of the model.
\<close>

definition MAX_SAFE_INTEGER :: int where
  "MAX_SAFE_INTEGER = 9007199254740991"

text \<open>The page of a response (empty for a response without a body), and the number of pages.\<close>

definition page_of :: "transactions_body response \<Rightarrow> ProductTransaction list" where
  "page_of r = (case r of Status200 b \<Rightarrow> transactions b | _ \<Rightarrow> [])"

definition page_count :: "nat \<Rightarrow> nat \<Rightarrow> nat" where
  "page_count n perPage' = (n + perPage' - 1) div perPage'"

section \<open>Inputs of the evaluations\<close>

text \<open>
  Two hosts, one in UTC and one five hours west of it (UTC-05:00). The evaluations below
  use ISO dates, and patterns that are literal or start with a quantifier, so that the
  fallbacks of these hosts are never consulted. Their accumulator adds the values one
  after the other in binary64. The documents are dated 2022-03-15T00:00:00Z.
\<close>

definition addBinary64 :: "Number \<Rightarrow> rat \<Rightarrow> Number" where
  "addBinary64 a x = (case a of Num y \<Rightarrow> roundToBinary64 (y + x) | _ \<Rightarrow> a)"

definition utcHost :: "Number host" where
  "utcHost =
     \<lparr>LocalTZA = 0, date_fallback = (\<lambda>s. InvalidDate), regexp_fallback = (\<lambda>p. None),
      sum_init = Num 0, sum_add = addBinary64, sum_value = (\<lambda>a. a)\<rparr>"

definition westHost :: "Number host" where
  "westHost =
     \<lparr>LocalTZA = - 18000000, date_fallback = (\<lambda>s. InvalidDate),
      regexp_fallback = (\<lambda>p. None),
      sum_init = Num 0, sum_add = addBinary64, sum_value = (\<lambda>a. a)\<rparr>"

definition freeSample :: ProductTransaction where
  "freeSample =
     \<lparr>idNo = 1, title = ''Free sample'', description = ''gift'', price = 0,
      dateOfSale = 1647302400000, category = ''misc'', sold = False\<rparr>"

definition item200x :: ProductTransaction where
  "item200x =
     \<lparr>idNo = 2, title = ''item 200x'', description = ''thing'', price = 35,
      dateOfSale = 1647302400000, category = ''misc'', sold = True\<rparr>"

definition lamp :: ProductTransaction where
  "lamp =
     \<lparr>idNo = 3, title = ''lamp'', description = ''bright'', price = 200,
      dateOfSale = 1647302400000, category = ''home'', sold = True\<rparr>"

text \<open>
  Two sold documents whose prices are the binary64 values of \<^verbatim>\<open>0.1\<close> and \<^verbatim>\<open>0.2\<close>.
\<close>

definition dime :: ProductTransaction where
  "dime =
     \<lparr>idNo = 4, title = ''dime'', description = ''coin'',
      price = 3602879701896397 / 36028797018963968,
      dateOfSale = 1647302400000, category = ''coins'', sold = True\<rparr>"

definition twoDimes :: ProductTransaction where
  "twoDimes =
     \<lparr>idNo = 5, title = ''two dimes'', description = ''coins'',
      price = 3602879701896397 / 18014398509481984,
      dateOfSale = 1647302400000, category = ''coins'', sold = True\<rparr>"

text \<open>The window [2022-03-01T00:00Z, 2022-04-01T00:00Z).\<close>

definition march2022 :: "ProductTransaction \<Rightarrow> bool" where
  "march2022 = (\<lambda>t. 1646092800000 \<le> dateOfSale t \<and> dateOfSale t < 1648771200000)"

section \<open>Properties of the date arithmetic\<close>

text \<open>\<open>YearFromTime\<close> is the year ECMA-262 specifies: the one whose days include \<open>Day t\<close>.\<close>

lemma div_lower: "0 < n \<Longrightarrow> n * (x div n) \<le> (x::int)"
  by (metis mult.commute div_mult_mod_eq le_add_same_cancel1 pos_mod_sign)

lemma div_upper: "0 < n \<Longrightarrow> (x::int) < n * (x div n) + n"
  by (metis mult.commute div_mult_mod_eq add_less_cancel_left pos_mod_bound)

lemma div_succ:
  assumes n: "0 < n"
  shows "((x::int) + 1) div n = x div n + (if (x + 1) mod n = 0 then 1 else 0)"
proof -
  define q where "q = x div n"
  define r where "r = x mod n"
  have x: "x = n * q + r" and r: "0 \<le> r" "r < n"
    using n by (simp_all add: q_def r_def)
  show ?thesis
  proof (cases "r + 1 = n")
    case True
    then have e: "x + 1 = n * (q + 1) + 0"
      using x by (simp add: algebra_simps)
    have "(x + 1) div n = q + 1"
      by (rule int_div_pos_eq [OF e]) (use n in simp_all)
    moreover have "(x + 1) mod n = 0"
      by (rule int_mod_pos_eq [OF e]) (use n in simp_all)
    ultimately show ?thesis by (simp add: q_def)
  next
    case False
    then have e: "x + 1 = n * q + (r + 1)" and b: "0 \<le> r + 1" "r + 1 < n"
      using x r by simp_all
    have "(x + 1) div n = q"
      by (rule int_div_pos_eq [OF e b])
    moreover have "(x + 1) mod n = r + 1"
      by (rule int_mod_pos_eq [OF e b])
    ultimately show ?thesis using r by (simp add: q_def)
  qed
qed

lemma DayFromYear_bounds:
  "146097 * (y - 1970) - 506 \<le> 400 * DayFromYear y"
  "400 * DayFromYear y \<le> 146097 * (y - 1970) + 589"
proof -
  define a where "a = (y - 1969) div 4"
  define b where "b = (y - 1901) div 100"
  define c where "c = (y - 1601) div 400"
  have a: "4 * a \<le> y - 1969" "y - 1969 < 4 * a + 4"
    unfolding a_def using div_lower [of 4 "y - 1969"] div_upper [of 4 "y - 1969"] by simp_all
  have b: "100 * b \<le> y - 1901" "y - 1901 < 100 * b + 100"
    unfolding b_def using div_lower [of 100 "y - 1901"] div_upper [of 100 "y - 1901"] by simp_all
  have c: "400 * c \<le> y - 1601" "y - 1601 < 400 * c + 400"
    unfolding c_def using div_lower [of 400 "y - 1601"] div_upper [of 400 "y - 1601"] by simp_all
  have dfy: "DayFromYear y = 365 * (y - 1970) + a - b + c"
    by (simp add: DayFromYear_def a_def b_def c_def)
  with a b c show "146097 * (y - 1970) - 506 \<le> 400 * DayFromYear y"
    unfolding right_diff_distrib by linarith
  from a b c dfy show "400 * DayFromYear y \<le> 146097 * (y - 1970) + 589"
    unfolding right_diff_distrib by linarith
qed

lemma YearFromTime_spec:
  "DayFromYear (YearFromTime t) \<le> Day t \<and> Day t < DayFromYear (YearFromTime t + 1)"
proof -
  define d where "d = Day t"
  define y where "y = 1970 + (400 * d) div 146097"
  have q: "146097 * (y - 1970) \<le> 400 * d" "400 * d < 146097 * (y - 1970) + 146097"
    unfolding y_def using div_lower [of 146097 "400 * d"] div_upper [of 146097 "400 * d"]
    by simp_all
  have lo: "DayFromYear (y - 1) \<le> d"
    using DayFromYear_bounds [of "y - 1"] q unfolding right_diff_distrib by linarith
  have hi: "d < DayFromYear (y + 2)"
    using DayFromYear_bounds [of "y + 2"] q unfolding right_diff_distrib distrib_left by linarith
  have "YearFromTime t =
          (if DayFromYear (y + 1) \<le> d then y + 1 else if DayFromYear y \<le> d then y else y - 1)"
    by (simp add: YearFromTime_def Let_def d_def y_def)
  then show ?thesis
    using lo hi unfolding d_def [symmetric] by (auto simp: add.commute)
qed

text \<open>
  A year's days follow the days of the year before, so the year of a time is unique,
  and the first day of a month is recovered from its day number.
\<close>

lemma DayFromYear_Suc: "DayFromYear (y + 1) = DayFromYear y + DaysInYear y"
proof -
  have a: "(y + 1 - 1969) div 4 = (y - 1969) div 4 + (if y mod 4 = 0 then 1 else 0)"
  proof -
    have "((y - 1969 + 1) mod 4 = 0) = (y mod 4 = 0)" by presburger
    then show ?thesis using div_succ [of 4 "y - 1969"] by (simp add: algebra_simps)
  qed
  have b: "(y + 1 - 1901) div 100 = (y - 1901) div 100 + (if y mod 100 = 0 then 1 else 0)"
  proof -
    have "((y - 1901 + 1) mod 100 = 0) = (y mod 100 = 0)" by presburger
    then show ?thesis using div_succ [of 100 "y - 1901"] by (simp add: algebra_simps)
  qed
  have c: "(y + 1 - 1601) div 400 = (y - 1601) div 400 + (if y mod 400 = 0 then 1 else 0)"
  proof -
    have "((y - 1601 + 1) mod 400 = 0) = (y mod 400 = 0)" by presburger
    then show ?thesis using div_succ [of 400 "y - 1601"] by (simp add: algebra_simps)
  qed
  have d: "y mod 400 = 0 \<Longrightarrow> y mod 100 = 0" "y mod 100 = 0 \<Longrightarrow> y mod 4 = 0"
    by presburger+
  show ?thesis
    unfolding DayFromYear_def DaysInYear_def a b c using d by auto
qed

lemma DayFromYear_mono: "y < y' \<Longrightarrow> DayFromYear (y + 1) \<le> DayFromYear y'"
proof -
  assume "y < y'"
  then consider "y' = y + 1" | "y + 2 \<le> y'" by linarith
  then show ?thesis
  proof cases
    case 1
    then show ?thesis by simp
  next
    case 2
    then show ?thesis
      using DayFromYear_bounds(2) [of "y + 1"] DayFromYear_bounds(1) [of y']
      unfolding right_diff_distrib distrib_left by linarith
  qed
qed

lemma YearFromTime_unique:
  assumes "DayFromYear y \<le> Day t" "Day t < DayFromYear (y + 1)"
  shows "YearFromTime t = y"
proof (rule ccontr)
  assume ne: "YearFromTime t \<noteq> y"
  note spec = YearFromTime_spec [of t]
  from ne consider "YearFromTime t < y" | "y < YearFromTime t" by linarith
  then show False
  proof cases
    case 1
    from DayFromYear_mono [OF 1] spec assms show False by linarith
  next
    case 2
    from DayFromYear_mono [OF 2] spec assms show False by linarith
  qed
qed

lemma Day_local:
  assumes "0 \<le> z" "z < msPerDay"
  shows "Day (msPerDay * D + z) = D" "TimeWithinDay (msPerDay * D + z) = z"
proof -
  have e: "msPerDay * D + z = msPerDay * D + z" ..
  show "Day (msPerDay * D + z) = D"
    unfolding Day_def by (rule int_div_pos_eq [OF e assms])
  show "TimeWithinDay (msPerDay * D + z) = z"
    unfolding TimeWithinDay_def by (rule int_mod_pos_eq [OF e assms])
qed

lemma first_of_month:
  assumes mn: "0 \<le> mn" "mn \<le> 11"
    and d: "Day t = DayFromYear y + monthStart (if DaysInYear y = 366 then 1 else 0) mn"
  shows "YearFromTime t = y" "MonthFromTime t = mn" "DateFromTime t = 1"
proof -
  let ?l = "if DaysInYear y = 366 then 1 else 0 :: int"
  have cases: "mn = 0 \<or> mn = 1 \<or> mn = 2 \<or> mn = 3 \<or> mn = 4 \<or> mn = 5 \<or> mn = 6 \<or> mn = 7
      \<or> mn = 8 \<or> mn = 9 \<or> mn = 10 \<or> mn = 11"
    using mn by presburger
  have diy: "DaysInYear y = 365 + ?l"
    by (simp add: DaysInYear_def)
  have ms: "0 \<le> monthStart ?l mn" "monthStart ?l mn < 365 + ?l"
    using cases by (auto simp: monthStart_def)
  show y: "YearFromTime t = y"
    by (rule YearFromTime_unique) (use d ms diy in \<open>simp_all add: DayFromYear_Suc\<close>)
  have l: "InLeapYear t = ?l"
    by (simp add: InLeapYear_def y)
  have w: "DayWithinYear t = monthStart ?l mn"
    by (simp add: DayWithinYear_def y d)
  show m: "MonthFromTime t = mn"
    unfolding MonthFromTime_def w l Let_def using cases by (auto simp: monthStart_def)
  show "DateFromTime t = 1"
    unfolding DateFromTime_def w l m Let_def using cases by (auto simp: monthStart_def)
qed

lemma MakeDay_first:
  assumes "0 \<le> mn" "mn \<le> 11"
  shows "MakeDay y mn 1 = DayFromYear y + monthStart (if DaysInYear y = 366 then 1 else 0) mn"
  using assms by (simp add: MakeDay_def Let_def)

lemma MakeDay_carry: "MakeDay y 12 1 = MakeDay (y + 1) 0 1"
  by (simp add: MakeDay_def Let_def)

lemma MakeDay_range:
  assumes y: "0 \<le> y" "y \<le> 10000" and mn: "0 \<le> mn" "mn \<le> 11"
  shows "\<bar>msPerDay * MakeDay y mn 1\<bar> \<le> 8640000000000000"
proof -
  have cases: "mn = 0 \<or> mn = 1 \<or> mn = 2 \<or> mn = 3 \<or> mn = 4 \<or> mn = 5 \<or> mn = 6 \<or> mn = 7
      \<or> mn = 8 \<or> mn = 9 \<or> mn = 10 \<or> mn = 11"
    using mn by presburger
  have ms: "0 \<le> monthStart (if DaysInYear y = 366 then 1 else 0) mn"
    "monthStart (if DaysInYear y = 366 then 1 else 0) mn \<le> 366"
    using cases by (auto simp: monthStart_def)
  have "- 1000000 \<le> DayFromYear y" "DayFromYear y \<le> 3000000"
    using DayFromYear_bounds [of y] y unfolding right_diff_distrib by linarith+
  then have "- 1000000 \<le> MakeDay y mn 1" "MakeDay y mn 1 \<le> 3000366"
    using ms unfolding MakeDay_first [OF mn] by linarith+
  then show ?thesis
    unfolding msPerDay_def by linarith
qed

section \<open>The month window\<close>

lemma digitVal_range: "isDigit c \<Longrightarrow> 0 \<le> digitVal c \<and> digitVal c \<le> 9"
  unfolding isDigit_def digitVal_def by linarith

lemma isoDateOnly_year:
  assumes "isoDateOnly s = Some (y, mo, d)"
  shows "0 \<le> y \<and> y \<le> 9999"
proof -
  from assms obtain y1 y2 y3 y4 where dg: "isDigit y1" "isDigit y2" "isDigit y3" "isDigit y4"
    and y: "y = digitsVal [y1, y2, y3, y4]"
    by (auto simp: isoDateOnly_def split: list.splits if_splits)
  have "0 \<le> digitsVal [y1, y2, y3, y4] \<and> digitsVal [y1, y2, y3, y4] \<le> 9999"
    using digitVal_range [OF dg(1)] digitVal_range [OF dg(2)] digitVal_range [OF dg(3)]
      digitVal_range [OF dg(4)]
    by (simp add: digitsVal_def)
  then show ?thesis using y by simp
qed

text \<open>
  The window on a host whose local time is UTC or ahead of it by less than a day: for a
  selector \<^verbatim>\<open>YYYY-MM\<close> with month \<open>mo\<close> from 1 to 12, it starts with the first day of
  month \<open>mo\<close> of year \<open>y\<close> and ends with the first day of the month after
  (\<open>MakeDay y 12 1\<close> is the first day of the year \<open>y + 1\<close>).
\<close>

lemma month_window_at_or_east_of_utc:
  assumes iso: "isoDateOnly (template m @ ''-01'') = Some (y, mo, 1)"
    and mo: "1 \<le> mo" "mo \<le> 12"
    and tz: "0 \<le> LocalTZA h" "LocalTZA h < msPerDay"
  shows "startDate h m = TimeValue (msPerDay * MakeDay y (mo - 1) 1)"
    and "endDate h m = TimeValue (msPerDay * MakeDay y mo 1)"
proof -
  let ?l = "if DaysInYear y = 366 then 1 else 0 :: int"
  let ?t = "msPerDay * MakeDay y (mo - 1) 1"
  have y: "0 \<le> y" "y \<le> 9999"
    using isoDateOnly_year [OF iso] by simp_all
  have mn: "0 \<le> mo - 1" "mo - 1 \<le> 11"
    using mo by simp_all
  have dim: "1 \<le> DaysInMonth y mo"
    by (simp add: DaysInMonth_def)
  have clip: "TimeClip ?t = TimeValue ?t"
    using MakeDay_range [OF y(1) _ mn] y(2) by (simp add: TimeClip_def)
  show start: "startDate h m = TimeValue ?t"
    using mo dim clip by (simp add: startDate_def Date_parse_def iso MakeDate_def mult.commute)
  have day: "Day (LocalTime h ?t) = DayFromYear y + monthStart ?l (mo - 1)"
    and twd: "TimeWithinDay (LocalTime h ?t) = LocalTZA h"
    unfolding LocalTime_def using Day_local [OF tz] MakeDay_first [OF mn] by simp_all
  note fom = first_of_month [OF mn day]
  have range: "\<bar>msPerDay * MakeDay y mo 1\<bar> \<le> 8640000000000000"
  proof (cases "mo = 12")
    case True
    then show ?thesis
      using MakeDay_range [of "y + 1" 0] y by (simp add: MakeDay_carry)
  next
    case False
    then show ?thesis
      using MakeDay_range [of y mo] y mo by simp
  qed
  show "endDate h m = TimeValue (msPerDay * MakeDay y mo 1)"
    using range
    by (simp add: endDate_def start getMonth_def setMonth_def fom twd Let_def MakeDate_def
          UTC_def TimeClip_def mult.commute)
qed

text \<open>
  On a host in UTC the window of \<^verbatim>\<open>2022-03\<close> is
  [2022-03-01T00:00Z, 2022-04-01T00:00Z) and that of \<^verbatim>\<open>2022-12\<close> is
  [2022-12-01T00:00Z, 2023-01-01T00:00Z): \<^verbatim>\<open>setMonth(12)\<close> carries into the next year.
\<close>

lemma window_utc_2022_03:
  "startDate utcHost (Some ''2022-03'') = TimeValue 1646092800000 \<and>
   endDate utcHost (Some ''2022-03'') = TimeValue 1648771200000"
  unfolding utcHost_def by code_simp

lemma window_utc_2022_12:
  "startDate utcHost (Some ''2022-12'') = TimeValue 1669852800000 \<and>
   endDate utcHost (Some ''2022-12'') = TimeValue 1672531200000"
  unfolding utcHost_def by code_simp

text \<open>
  C4. The claim: for every well-formed year-month selector the window is
  [first instant of the month, first instant of the following month). The handlers parse
  the selector as a UTC date and advance the month in local time, so on a host west of
  UTC the local date of \<open>startDate\<close> is the last day of the month before, and the end of
  the window is that day of the selected month. On the host at UTC-05:00 the window of
  \<^verbatim>\<open>2022-03\<close> starts at 2022-03-01T00:00Z (1646092800000) and ends at
  2022-03-29T00:00Z (1648512000000), not at 2022-04-01T00:00Z (1648771200000); the window
  of \<^verbatim>\<open>2022-02\<close> ends at 2022-03-04T00:00Z (1646352000000).
\<close>

theorem month_window_west_of_utc:
  "startDate westHost (Some ''2022-03'') = TimeValue 1646092800000 \<and>
   getMonth westHost (startDate westHost (Some ''2022-03'')) = Some 1 \<and>
   endDate westHost (Some ''2022-03'') = TimeValue 1648512000000 \<and>
   endDate westHost (Some ''2022-03'') \<noteq> startDate westHost (Some ''2022-04'') \<and>
   endDate westHost (Some ''2022-02'') = TimeValue 1646352000000"
  unfolding westHost_def by code_simp

section \<open>Date ranges in queries\<close>

text \<open>
  The date range of a filter is a predicate when both dates are valid, and then the
  uncast \<^verbatim>\<open>$match\<close> of a pipeline admits the same documents; an invalid start date makes
  the end date invalid and the filter a CastError.
\<close>

lemma match_dateOfSale_range:
  "dateOfSale_range a b = Inr W \<Longrightarrow> match_dateOfSale a b = W"
  by (auto simp: dateOfSale_range_def castDate_def match_dateOfSale_def bsonDate_def fun_eq_iff
           split: Date.splits)

lemma dateOfSale_range_Inl:
  "a = InvalidDate \<Longrightarrow> dateOfSale_range a b = Inl CastError"
  by (simp add: dateOfSale_range_def castDate_def)

lemma endDate_Invalid: "startDate h m = InvalidDate \<Longrightarrow> endDate h m = InvalidDate"
  by (simp add: endDate_def setMonth_def)

lemma transactions_filter_Inr:
  "dateOfSale_range (startDate h m) (endDate h m) = Inr W \<Longrightarrow>
   transactions_filter h m regex s = Inr (\<lambda>t. W t \<and> search_or regex s t)"
  by (simp add: transactions_filter_def)

lemma window_march2022:
  "dateOfSale_range (startDate utcHost (Some ''2022-03'')) (endDate utcHost (Some ''2022-03''))
   = Inr march2022"
  using window_utc_2022_03 by (simp add: dateOfSale_range_def castDate_def march2022_def)

lemma march2022_docs [simp]:
  "march2022 freeSample" "march2022 item200x" "march2022 lamp" "march2022 dime"
  "march2022 twoDimes"
  by (simp_all add: march2022_def freeSample_def item200x_def lamp_def dime_def twoDimes_def)

lemma startDate_2022_13: "startDate utcHost (Some ''2022-13'') = InvalidDate"
  unfolding utcHost_def by code_simp

section \<open>The search predicate\<close>

text \<open>The empty pattern is a literal and matches every string.\<close>

lemma includes_ci_Nil [simp]: "includes_ci [] s"
  by (cases s) simp_all

lemma RegExp_i_Nil [simp]: "RegExp_i h [] = Some (includes_ci [])"
  by (simp add: RegExp_i_def literalPattern_def)

text \<open>
  What the price condition compares with: the parsed number when it is neither NaN nor
  zero, and -1 otherwise.
\<close>

lemma search_or_number:
  "parseFloat s = Num x \<Longrightarrow> x \<noteq> 0 \<Longrightarrow>
   search_or regex s t = (regex (title t) \<or> regex (description t) \<or> price t = x)"
  by (simp add: search_or_def or_else_def falsy_def)

lemma search_or_not_a_number:
  "parseFloat s = NaN \<Longrightarrow>
   search_or regex s t = (regex (title t) \<or> regex (description t) \<or> price t = - 1)"
  by (simp add: search_or_def or_else_def falsy_def)

lemma search_or_zero:
  "parseFloat s = Num 0 \<Longrightarrow>
   search_or regex s t = (regex (title t) \<or> regex (description t) \<or> price t = - 1)"
  by (simp add: search_or_def or_else_def falsy_def)

lemma search_or_not_a_number_price:
  "parseFloat s = NaN \<Longrightarrow> 0 \<le> price t \<Longrightarrow>
   search_or regex s t = (regex (title t) \<or> regex (description t))"
  by (simp add: search_or_not_a_number)

text \<open>
  The search \<^verbatim>\<open>200\<close> finds both the document of price 200 and the document whose
  title contains \<^verbatim>\<open>200\<close>; the search \<^verbatim>\<open>abc\<close> is not a number.
\<close>

lemma search_200_matches_both:
  "api_transactions utcHost [freeSample, item200x, lamp]
     \<lparr>month = Some ''2022-03'', search = Some ''200'', page = None, perPage = None\<rparr>
   = Status200 \<lparr>transactions = [item200x, lamp], total = 2\<rparr>"
  unfolding utcHost_def freeSample_def item200x_def lamp_def by code_simp

lemma parseFloat_abc: "parseFloat ''abc'' = NaN"
  by code_simp

text \<open>\<^verbatim>\<open>parseFloat('0.1')\<close> is the binary64 nearest to one tenth, \<open>3602879701896397 / 2 ^ 55\<close>.\<close>

lemma parseFloat_tenth: "parseFloat ''0.1'' = Num (3602879701896397 / 36028797018963968)"
  by code_simp

text \<open>
  C1. The claim: a transaction in the window matches when its price equals the search
  parsed as a number. \<^verbatim>\<open>parseFloat(search) || -1\<close> replaces a parsed 0 by -1, as it does
  NaN: the search \<^verbatim>\<open>0\<close> parses to 0, and the document \<open>freeSample\<close>, of price 0 and in
  the window of \<^verbatim>\<open>2022-03\<close>, is not found by it (its title and description do not
  contain \<^verbatim>\<open>0\<close>).
\<close>

theorem search_zero_misses_price_zero:
  "parseFloat ''0'' = Num 0 \<and> price freeSample = 0 \<and>
   or_else (parseFloat ''0'') (Num (- 1)) = Num (- 1) \<and>
   api_transactions utcHost [freeSample]
     \<lparr>month = Some ''2022-03'', search = Some ''0'', page = None, perPage = None\<rparr>
   = Status200 \<lparr>transactions = [], total = 0\<rparr> \<and>
   api_transactions utcHost [freeSample]
     \<lparr>month = Some ''2022-03'', search = None, page = None, perPage = None\<rparr>
   = Status200 \<lparr>transactions = [freeSample], total = 1\<rparr>"
  unfolding utcHost_def freeSample_def by code_simp

section \<open>List Transactions\<close>

lemma search_or_empty [simp]: "search_or (includes_ci []) s t"
  by (simp add: search_or_def)

lemma api_transactions_Status200:
  assumes "RegExp_i h s = Some regex"
    and "dateOfSale_range (startDate h m) (endDate h m) = Inr W"
    and "0 \<le> (pg - 1) * pp"
  shows "api_transactions h docs \<lparr>month = m, search = Some s, page = Some pg, perPage = Some pp\<rparr> =
         Status200
           \<lparr>transactions =
              limit_docs pp (drop (nat ((pg - 1) * pp)) (filter (\<lambda>t. W t \<and> search_or regex s t) docs)),
            total = length (filter (\<lambda>t. W t \<and> search_or regex s t) docs)\<rparr>"
  using assms
  by (simp add: api_transactions_def transactions_filter_Inr find_skip_limit_def countDocuments_def)

lemma api_transactions_default:
  assumes win: "dateOfSale_range (startDate h m) (endDate h m) = Inr W"
  shows "api_transactions h docs \<lparr>month = m, search = None, page = None, perPage = None\<rparr> =
         Status200 \<lparr>transactions = take 10 (filter W docs), total = length (filter W docs)\<rparr>"
  by (simp add: api_transactions_def transactions_filter_Inr [OF win] find_skip_limit_def
        countDocuments_def limit_docs_def)

lemma concat_pages:
  "concat (map (\<lambda>k. take n (drop (k * n) xs)) [0..<j]) = take (j * n) xs"
proof (induction j)
  case 0
  then show ?case by simp
next
  case (Suc j)
  have "take (j * n) xs @ take n (drop (j * n) xs) = take (j * n + n) xs"
    by (simp add: take_add)
  with Suc show ?case by (simp add: add.commute)
qed

lemma page_count_covers:
  assumes n: "0 < n"
  shows "len \<le> page_count len n * n"
proof -
  have "len + n - 1 < ((len + n - 1) div n) * n + n"
    using n by (metis add.commute div_mult_mod_eq add_less_cancel_left mod_less_divisor mult.commute)
  then show ?thesis by (simp add: page_count_def)
qed

text \<open>
  A search whose pattern the constructor rejects: the handler throws before its \<^verbatim>\<open>try\<close>
  block and answers nothing.
\<close>

lemma nothingToRepeat_SyntaxError: "nothingToRepeat p \<Longrightarrow> RegExp_i h p = None"
  by (cases p) (auto simp: RegExp_i_def nothingToRepeat_def literalPattern_def syntaxCharacter_def)

lemma api_transactions_Unanswered:
  "RegExp_i h s = None \<Longrightarrow>
   api_transactions h docs \<lparr>month = m, search = Some s, page = pg, perPage = pp\<rparr>
     = Unanswered SyntaxError"
  by (simp add: api_transactions_def)

text \<open>
  A search whose pattern the constructor accepts, a month with a valid window, and
  \<open>page \<ge> 1\<close>, \<open>perPage \<ge> 1\<close>.
\<close>

lemma pages_of_accepted_search:
  assumes rx: "RegExp_i h s = Some regex"
    and win: "dateOfSale_range (startDate h m) (endDate h m) = Inr W"
    and pg: "1 \<le> pg" and pp: "1 \<le> pp"
  shows "api_transactions h docs \<lparr>month = m, search = Some s, page = Some pg, perPage = Some pp\<rparr> =
         Status200
           \<lparr>transactions =
              take (nat pp) (drop (nat ((pg - 1) * pp)) (filter (\<lambda>t. W t \<and> search_or regex s t) docs)),
            total = length (filter (\<lambda>t. W t \<and> search_or regex s t) docs)\<rparr>
       \<and> concat (map (\<lambda>k. page_of (api_transactions h docs
                              \<lparr>month = m, search = Some s, page = Some (int k), perPage = Some pp\<rparr>))
                 [1..<Suc (page_count (length (filter (\<lambda>t. W t \<and> search_or regex s t) docs)) (nat pp))])
         = filter (\<lambda>t. W t \<and> search_or regex s t) docs"
proof -
  let ?M = "filter (\<lambda>t. W t \<and> search_or regex s t) docs"
  let ?n = "nat pp"
  have n: "0 < ?n" using pp by simp
  have lim: "limit_docs pp xs = take ?n xs" for xs :: "ProductTransaction list"
    using pp by (simp add: limit_docs_def)
  have one: "api_transactions h docs \<lparr>month = m, search = Some s, page = Some p, perPage = Some pp\<rparr> =
         Status200 \<lparr>transactions = take ?n (drop (nat ((p - 1) * pp)) ?M), total = length ?M\<rparr>"
    if "1 \<le> p" for p
    using api_transactions_Status200 [OF rx win, of p pp docs] that pp by (simp add: lim)
  have page: "page_of (api_transactions h docs
               \<lparr>month = m, search = Some s, page = Some (int (Suc k)), perPage = Some pp\<rparr>)
             = take ?n (drop (k * ?n) ?M)" for k
  proof -
    have "nat ((int (Suc k) - 1) * pp) = k * ?n"
      using pp by (simp add: nat_mult_distrib)
    then show ?thesis using one [of "int (Suc k)"] by (simp add: page_of_def)
  qed
  have "map (\<lambda>k. page_of (api_transactions h docs
                      \<lparr>month = m, search = Some s, page = Some (int k), perPage = Some pp\<rparr>))
            [1..<Suc (page_count (length ?M) ?n)]
        = map (\<lambda>k. take ?n (drop (k * ?n) ?M)) [0..<page_count (length ?M) ?n]"
  proof -
    have "[1..<Suc (page_count (length ?M) ?n)] = map Suc [0..<page_count (length ?M) ?n]"
      unfolding map_Suc_upt by simp
    then show ?thesis
      by (simp only: map_map o_def page)
  qed
  then have "concat (map (\<lambda>k. page_of (api_transactions h docs
                      \<lparr>month = m, search = Some s, page = Some (int k), perPage = Some pp\<rparr>))
            [1..<Suc (page_count (length ?M) ?n)]) = take (page_count (length ?M) ?n * ?n) ?M"
    by (simp add: concat_pages)
  also have "\<dots> = ?M"
    using page_count_covers [OF n, of "length ?M"] by simp
  finally show ?thesis using one [OF pg] by simp
qed







section \<open>Statistics\<close>

lemma linear_scan_eq:
  "linear_scan h W acc docs =
     \<lparr>saleAmount = foldl (sum_add h) (saleAmount acc) (map price (filter (\<lambda>t. W t \<and> sold t) docs)),
      soldItems = soldItems acc + length (filter (\<lambda>t. W t \<and> sold t) docs),
      notSoldItems = notSoldItems acc + length (filter (\<lambda>t. W t \<and> \<not> sold t) docs)\<rparr>"
  by (induction docs arbitrary: acc) auto

lemma group_sum_price_total:
  "(case group_sum_price h ds of [] \<Rightarrow> Num 0 | total' # _ \<Rightarrow> or_else total' (Num 0))
   = (if ds = [] then Num 0 else or_else (server_sum h (map price ds)) (Num 0))"
  by (simp add: group_sum_price_def)

lemma api_statistics_Status200:
  assumes win: "dateOfSale_range (startDate h m) (endDate h m) = Inr W"
  shows "api_statistics h docs m =
           Status200
             \<lparr>totalSaleAmount =
                (if filter (\<lambda>t. W t \<and> sold t) docs = [] then Num 0
                 else or_else (server_sum h (map price (filter (\<lambda>t. W t \<and> sold t) docs))) (Num 0)),
              totalSoldItems = length (filter (\<lambda>t. W t \<and> sold t) docs),
              totalNotSoldItems = length (filter (\<lambda>t. W t \<and> \<not> sold t) docs)\<rparr>"
  by (simp add: api_statistics_def win match_dateOfSale_range [OF win] countDocuments_def
        group_sum_price_total Let_def)

lemma count_sold_partition:
  "length (filter (\<lambda>t. W t \<and> sold t) docs) + length (filter (\<lambda>t. W t \<and> \<not> sold t) docs)
   = length (filter W docs)"
  by (induction docs) auto

text \<open>
  On the sample host, whose accumulator adds in binary64, the prices 35 and 200 sum to
  235, and the binary64 values of \<^verbatim>\<open>0.1\<close> and \<^verbatim>\<open>0.2\<close> sum to the binary64 value
  \<^verbatim>\<open>0.30000000000000004\<close>, which is \<open>5404319552844596 / 2 ^ 54\<close>.
\<close>

lemma server_sum_35_200: "server_sum utcHost [35, 200] = Num 235"
  unfolding utcHost_def by code_simp

lemma server_sum_dimes:
  "server_sum utcHost [price dime, price twoDimes] = Num (5404319552844596 / 18014398509481984)"
  unfolding utcHost_def dime_def twoDimes_def by code_simp



section \<open>Price Histogram\<close>

lemma Promise_all_Inr: "Promise_all (map (\<lambda>r. Inr (f r)) rs) = Inr (map f rs)"
  by (induction rs) simp_all

lemma Promise_all_Inl: "rs \<noteq> [] \<Longrightarrow> Promise_all (map (\<lambda>r. Inl e) rs) = Inl e"
  by (cases rs) simp_all

lemma range_count_Inr:
  "dateOfSale_range (startDate h m) (endDate h m) = Inr W \<Longrightarrow>
   range_count h docs m = (\<lambda>r. Inr (range_of r, length (filter (\<lambda>t. W t \<and> in_range r t) docs)))"
  by (simp add: range_count_def countDocuments_def fun_eq_iff)

lemma api_bar_chart_Status200:
  "dateOfSale_range (startDate h m) (endDate h m) = Inr W \<Longrightarrow>
   api_bar_chart h docs m =
     Status200 (map (\<lambda>r. (range_of r, length (filter (\<lambda>t. W t \<and> in_range r t) docs))) priceRanges)"
  by (simp add: api_bar_chart_def range_count_Inr Promise_all_Inr)

text \<open>A price is in no range when it is in the gap, and in one range otherwise.\<close>

lemma ranges_of_price:
  "length (filter (\<lambda>r. in_range r t) priceRanges) = (if boundary_gap (price t) then 0 else 1)"
  unfolding priceRanges_def in_range_def gte_def lt_def boundary_gap_def
  by simp

lemma count_swap:
  "sum_list (map (\<lambda>r. length (filter (\<lambda>t. W t \<and> Q r t) docs)) rs)
   = sum_list (map (\<lambda>t. if W t then length (filter (\<lambda>r. Q r t) rs) else 0) docs)"
proof (induction docs)
  case Nil
  then show ?case by simp
next
  case (Cons t ts)
  have "sum_list (map (\<lambda>r. length (filter (\<lambda>t. W t \<and> Q r t) (t # ts))) rs)
        = sum_list (map (\<lambda>r. (if W t \<and> Q r t then 1 else 0)) rs)
          + sum_list (map (\<lambda>r. length (filter (\<lambda>t. W t \<and> Q r t) ts)) rs)"
    by (induction rs) auto
  moreover have "sum_list (map (\<lambda>r. (if W t \<and> Q r t then 1 else 0)) rs)
        = (if W t then length (filter (\<lambda>r. Q r t) rs) else 0)"
    by (induction rs) auto
  ultimately show ?case using Cons by simp
qed

lemma count_partition:
  "length (filter (\<lambda>t. W t \<and> \<not> G t) docs) + length (filter (\<lambda>t. W t \<and> G t) docs)
   = length (filter W docs)"
  by (induction docs) auto

text \<open>
  C2, the claim at a document of price 200 in the window of \<^verbatim>\<open>2022-03\<close>: the ten
  counts are 0, no document in the window has price 100, and the window holds one
  document (the unfiltered List Transactions counts it); the price 200 is in no range.
\<close>

theorem histogram_gap_at_200:
  "api_bar_chart utcHost [lamp] (Some ''2022-03'') =
     Status200 [(''0-100'', 0), (''101-200'', 0), (''201-300'', 0), (''301-400'', 0),
                (''401-500'', 0), (''501-600'', 0), (''601-700'', 0), (''701-800'', 0),
                (''801-900'', 0), (''901-above'', 0)]
   \<and> api_transactions utcHost [lamp]
       \<lparr>month = Some ''2022-03'', search = None, page = None, perPage = None\<rparr>
     = Status200 \<lparr>transactions = [lamp], total = 1\<rparr>
   \<and> price lamp = 200
   \<and> filter (\<lambda>r. in_range r lamp) priceRanges = []"
  unfolding utcHost_def lamp_def by code_simp

text \<open>
  C2, amended. For a month with a valid window \<open>W\<close> and any collection, the Price
  Histogram answers 200 with the ten ranges in their declared order, each with the
  number of documents in the window whose price it admits; the sum of the ten counts
  plus the number of documents in the window whose price is in the gap (negative, or
  from a multiple of 100 between 100 and 900 up to, but excluding, the next integer)
  is the number of documents in the window; and every price is in no range when it is
  in the gap and in exactly one range otherwise.
\<close>

theorem histogram_completeness:
  assumes win: "dateOfSale_range (startDate h m) (endDate h m) = Inr W"
  shows "\<exists>bars. api_bar_chart h docs m = Status200 bars
          \<and> map fst bars = map range_of priceRanges
          \<and> map snd bars = map (\<lambda>r. length (filter (\<lambda>t. W t \<and> in_range r t) docs)) priceRanges
          \<and> sum_list (map snd bars) + length (filter (\<lambda>t. W t \<and> boundary_gap (price t)) docs)
            = length (filter W docs)
          \<and> (\<forall>t. length (filter (\<lambda>r. in_range r t) priceRanges)
                  = (if boundary_gap (price t) then 0 else 1))"
proof -
  let ?bars = "map (\<lambda>r. (range_of r, length (filter (\<lambda>t. W t \<and> in_range r t) docs))) priceRanges"
  have snd: "map snd ?bars = map (\<lambda>r. length (filter (\<lambda>t. W t \<and> in_range r t) docs)) priceRanges"
    by (simp add: o_def)
  have "sum_list (map snd ?bars)
        = sum_list (map (\<lambda>t. if W t then (if boundary_gap (price t) then 0 else 1) else 0) docs)"
    unfolding snd count_swap ranges_of_price ..
  also have "\<dots> = length (filter (\<lambda>t. W t \<and> \<not> boundary_gap (price t)) docs)"
    by (induction docs) auto
  finally have "sum_list (map snd ?bars) + length (filter (\<lambda>t. W t \<and> boundary_gap (price t)) docs)
                = length (filter W docs)"
    by (simp add: count_partition)
  moreover have "map fst ?bars = map range_of priceRanges"
    by (simp add: o_def)
  ultimately show ?thesis
    using api_bar_chart_Status200 [OF win, of docs] snd ranges_of_price by blast
qed

theorem histogram_completeness_witness:
  "dateOfSale_range (startDate utcHost (Some ''2022-03'')) (endDate utcHost (Some ''2022-03''))
     = Inr march2022
   \<and> (\<exists>bars. api_bar_chart utcHost [freeSample, item200x, lamp] (Some ''2022-03'') = Status200 bars
        \<and> sum_list (map snd bars) = 2
        \<and> length (filter (\<lambda>t. march2022 t \<and> boundary_gap (price t)) [freeSample, item200x, lamp]) = 1
        \<and> length (filter march2022 [freeSample, item200x, lamp]) = 3)"
proof -
  have gap: "\<not> boundary_gap (price freeSample)" "\<not> boundary_gap (price item200x)"
    "boundary_gap (price lamp)"
    by (simp_all add: boundary_gap_def freeSample_def item200x_def lamp_def)
  show ?thesis
    using histogram_completeness [OF window_march2022, of "[freeSample, item200x, lamp]"]
      window_march2022 gap
    by auto
qed

section \<open>Category Distribution\<close>

text \<open>
  C9. For a month with a valid window \<open>W\<close> and any collection, the Category
  Distribution answers 200 with a list of \<open>(category, count)\<close> in which no category
  occurs twice, whose categories are exactly the categories of the documents in the
  window, and in which each count is the number of documents in the window of that
  category and is not 0.
\<close>

theorem category_distribution:
  assumes win: "dateOfSale_range (startDate h m) (endDate h m) = Inr W"
  shows "\<exists>groups. api_pie_chart h docs m = Status200 groups
         \<and> distinct (map fst groups)
         \<and> set (map fst groups) = category ` {t \<in> set docs. W t}
         \<and> (\<forall>(c, n) \<in> set groups. 0 < n \<and> n = length (filter (\<lambda>t. W t \<and> category t = c) docs))"
proof -
  let ?ds = "filter W docs"
  have "api_pie_chart h docs m = Status200 (group_count_category ?ds)"
    by (simp add: api_pie_chart_def match_dateOfSale_range [OF win])
  moreover have "distinct (map fst (group_count_category ?ds))"
    by (simp add: group_count_category_def o_def)
  moreover have "set (map fst (group_count_category ?ds)) = category ` {t \<in> set docs. W t}"
    by (auto simp: group_count_category_def o_def)
  moreover have "\<forall>(c, n) \<in> set (group_count_category ?ds).
                   0 < n \<and> n = length (filter (\<lambda>t. W t \<and> category t = c) docs)"
    by (auto simp: group_count_category_def length_greater_0_conv filter_empty_conv conj_commute)
  ultimately show ?thesis by blast
qed

theorem category_distribution_witness:
  "api_pie_chart utcHost [freeSample, item200x, lamp] (Some ''2022-03'')
     = Status200 [(''misc'', 2), (''home'', 1)]
   \<and> (\<exists>groups. api_pie_chart utcHost [freeSample, item200x, lamp] (Some ''2022-03'') = Status200 groups
        \<and> distinct (map fst groups))"
proof -
  have "api_pie_chart utcHost [freeSample, item200x, lamp] (Some ''2022-03'')
     = Status200 [(''misc'', 2), (''home'', 1)]"
    by (simp add: api_pie_chart_def match_dateOfSale_range [OF window_march2022]
          group_count_category_def freeSample_def item200x_def lamp_def march2022_def)
  then show ?thesis
    using category_distribution [OF window_march2022, of "[freeSample, item200x, lamp]"] by auto
qed

section \<open>Combined Report\<close>

text \<open>The four requests of the combined handler are always answered.\<close>

lemma api_transactions_never_unanswered:
  "\<not> is_Unanswered (api_transactions h docs \<lparr>month = m, search = None, page = pg, perPage = pp\<rparr>)"
  by (simp add: api_transactions_def Let_def split: sum.splits)

lemma api_statistics_never_unanswered: "\<not> is_Unanswered (api_statistics h docs m)"
  by (simp add: api_statistics_def Let_def split: sum.splits)

lemma api_bar_chart_never_unanswered: "\<not> is_Unanswered (api_bar_chart h docs m)"
  by (simp add: api_bar_chart_def split: sum.splits)

lemma api_pie_chart_never_unanswered: "\<not> is_Unanswered (api_pie_chart h docs m)"
  by (simp add: api_pie_chart_def)

lemma combine_Status200_iff:
  "combine r1 r2 r3 r4 = Status200 b \<longleftrightarrow>
     r1 = Status200 (transactionsData b) \<and> r2 = Status200 (statistics b)
     \<and> r3 = Status200 (barChart b) \<and> r4 = Status200 (pieChart b)"
  by (cases r1; cases r2; cases r3; cases r4; cases b) (auto simp: combine_def)

lemma combine_Status500:
  assumes "\<not> is_Unanswered r1" "\<not> is_Unanswered r2" "\<not> is_Unanswered r3" "\<not> is_Unanswered r4"
    and "is_Status500 r1 \<or> is_Status500 r2 \<or> is_Status500 r3 \<or> is_Status500 r4"
  shows "combine r1 r2 r3 r4 = Status500 ''Error fetching combined data''"
  using assms by (cases r1; cases r2; cases r3; cases r4) (auto simp: combine_def)

lemma combine_not_Status200:
  assumes "\<not> is_Unanswered r1" "\<not> is_Unanswered r2" "\<not> is_Unanswered r3" "\<not> is_Unanswered r4"
    and "\<not> is_Status200 r1 \<or> \<not> is_Status200 r2 \<or> \<not> is_Status200 r3 \<or> \<not> is_Status200 r4"
  shows "combine r1 r2 r3 r4 = Status500 ''Error fetching combined data''"
  using assms by (cases r1; cases r2; cases r3; cases r4) (auto simp: combine_def)

text \<open>
  C7. For a month with a valid window \<open>W\<close> and any collection, the Combined Report
  answers 200, the unfiltered List Transactions request (no search, default pagination)
  for the same month answers 200, and \<open>totalSoldItems + totalNotSoldItems\<close> of the
  report's statistics is the \<open>total\<close> of that List Transactions answer, the number of
  documents in the window.
\<close>

theorem combined_consistency:
  assumes win: "dateOfSale_range (startDate h m) (endDate h m) = Inr W"
  shows "\<exists>b tb. api_combined_data h docs m = Status200 b
           \<and> api_transactions h docs \<lparr>month = m, search = None, page = None, perPage = None\<rparr>
               = Status200 tb
           \<and> totalSoldItems (statistics b) + totalNotSoldItems (statistics b) = total tb
           \<and> total tb = length (filter W docs)"
proof -
  let ?tb = "\<lparr>transactions = take 10 (filter W docs), total = length (filter W docs)\<rparr>"
  let ?sb = "\<lparr>totalSaleAmount =
                (if filter (\<lambda>t. W t \<and> sold t) docs = [] then Num 0
                 else or_else (server_sum h (map price (filter (\<lambda>t. W t \<and> sold t) docs))) (Num 0)),
              totalSoldItems = length (filter (\<lambda>t. W t \<and> sold t) docs),
              totalNotSoldItems = length (filter (\<lambda>t. W t \<and> \<not> sold t) docs)\<rparr>"
  let ?bc = "map (\<lambda>r. (range_of r, length (filter (\<lambda>t. W t \<and> in_range r t) docs))) priceRanges"
  let ?pc = "group_count_category (filter W docs)"
  let ?b = "\<lparr>transactionsData = ?tb, statistics = ?sb, barChart = ?bc, pieChart = ?pc\<rparr>"
  have t: "api_transactions h docs \<lparr>month = m, search = None, page = None, perPage = None\<rparr>
           = Status200 ?tb"
    by (rule api_transactions_default [OF win])
  have s: "api_statistics h docs m = Status200 ?sb"
    by (rule api_statistics_Status200 [OF win])
  have b: "api_bar_chart h docs m = Status200 ?bc"
    by (rule api_bar_chart_Status200 [OF win])
  have p: "api_pie_chart h docs m = Status200 ?pc"
    by (simp add: api_pie_chart_def match_dateOfSale_range [OF win])
  have "api_combined_data h docs m = Status200 ?b"
    by (simp add: api_combined_data_def t s b p combine_def)
  moreover have "totalSoldItems (statistics ?b) + totalNotSoldItems (statistics ?b) = total ?tb"
    by (simp add: count_sold_partition)
  ultimately show ?thesis using t by (intro exI [of _ ?b] exI [of _ ?tb]) simp
qed

theorem combined_consistency_witness:
  "\<exists>b tb. api_combined_data utcHost [freeSample, item200x, lamp] (Some ''2022-03'') = Status200 b
     \<and> api_transactions utcHost [freeSample, item200x, lamp]
          \<lparr>month = Some ''2022-03'', search = None, page = None, perPage = None\<rparr> = Status200 tb
     \<and> totalSoldItems (statistics b) + totalNotSoldItems (statistics b) = total tb
     \<and> total tb = 3"
proof -
  have len: "length (filter march2022 [freeSample, item200x, lamp]) = 3"
    by simp
  show ?thesis
    using combined_consistency [OF window_march2022, of "[freeSample, item200x, lamp]"]
    unfolding len .
qed

text \<open>
  C8. The combined handler answers 200 only when each of its four requests was
  answered 200, and then its body holds the four bodies received. When one of four
  answered requests was answered 500, it answers 500 with its own message, whatever the
  other three returned. For the four requests the handler makes (which are always
  answered): if any of them is not answered 200, the combined answer is that 500.
\<close>

theorem combined_fails_as_a_whole:
  "(combine r1 r2 r3 r4 = Status200 b \<longrightarrow>
      r1 = Status200 (transactionsData b) \<and> r2 = Status200 (statistics b)
      \<and> r3 = Status200 (barChart b) \<and> r4 = Status200 (pieChart b))
   \<and> (\<not> is_Unanswered r1 \<and> \<not> is_Unanswered r2 \<and> \<not> is_Unanswered r3 \<and> \<not> is_Unanswered r4
      \<and> (is_Status500 r1 \<or> is_Status500 r2 \<or> is_Status500 r3 \<or> is_Status500 r4) \<longrightarrow>
      combine r1 r2 r3 r4 = Status500 ''Error fetching combined data'')
   \<and> (\<not> is_Status200 (api_transactions h docs \<lparr>month = m, search = None, page = None, perPage = None\<rparr>)
      \<or> \<not> is_Status200 (api_statistics h docs m)
      \<or> \<not> is_Status200 (api_bar_chart h docs m)
      \<or> \<not> is_Status200 (api_pie_chart h docs m) \<longrightarrow>
      api_combined_data h docs m = Status500 ''Error fetching combined data'')"
proof -
  have a: "combine r1 r2 r3 r4 = Status200 b \<longrightarrow>
      r1 = Status200 (transactionsData b) \<and> r2 = Status200 (statistics b)
      \<and> r3 = Status200 (barChart b) \<and> r4 = Status200 (pieChart b)"
    by (simp add: combine_Status200_iff)
  have b: "\<not> is_Unanswered r1 \<and> \<not> is_Unanswered r2 \<and> \<not> is_Unanswered r3 \<and> \<not> is_Unanswered r4
      \<and> (is_Status500 r1 \<or> is_Status500 r2 \<or> is_Status500 r3 \<or> is_Status500 r4) \<longrightarrow>
      combine r1 r2 r3 r4 = Status500 ''Error fetching combined data''"
    using combine_Status500 [of r1 r2 r3 r4] by simp
  have c: "\<not> is_Status200 (api_transactions h docs \<lparr>month = m, search = None, page = None, perPage = None\<rparr>)
      \<or> \<not> is_Status200 (api_statistics h docs m)
      \<or> \<not> is_Status200 (api_bar_chart h docs m)
      \<or> \<not> is_Status200 (api_pie_chart h docs m) \<longrightarrow>
      api_combined_data h docs m = Status500 ''Error fetching combined data''"
    unfolding api_combined_data_def
    using combine_not_Status200 [OF api_transactions_never_unanswered
        api_statistics_never_unanswered api_bar_chart_never_unanswered
        api_pie_chart_never_unanswered, of h docs m None None h docs m h docs m h docs m]
    by simp
  from a b c show ?thesis by (intro conjI)
qed

theorem combined_fails_as_a_whole_witness:
  "combine (Status200 \<lparr>transactions = [lamp], total = 1\<rparr>) (Status500 ''Error fetching statistics'')
     (Status200 []) (Status200 [(''home'', 1)])
     = Status500 ''Error fetching combined data''
   \<and> api_pie_chart utcHost [lamp] (Some ''2022-13'') = Status200 []
   \<and> \<not> is_Status200 (api_statistics utcHost [lamp] (Some ''2022-13''))
   \<and> api_combined_data utcHost [lamp] (Some ''2022-13'') = Status500 ''Error fetching combined data''
   \<and> is_Status200 (api_combined_data utcHost [lamp] (Some ''2022-03''))"
proof -
  have s: "\<not> is_Status200 (api_statistics utcHost [lamp] (Some ''2022-13''))"
    and p: "api_pie_chart utcHost [lamp] (Some ''2022-13'') = Status200 []"
    and c: "is_Status200 (api_combined_data utcHost [lamp] (Some ''2022-03''))"
    unfolding utcHost_def lamp_def by code_simp+
  show ?thesis
    using s p c
      combined_fails_as_a_whole [of "Status200 \<lparr>transactions = [lamp], total = 1\<rparr>"
        "Status500 ''Error fetching statistics''" "Status200 []" "Status200 [(''home'', 1)]"
        undefined utcHost "[lamp]" "Some ''2022-13''"]
    by simp
qed

section \<open>An unparsable month\<close>




end
